theory Spec2Isabelle
  imports Complex_Main
begin

section \<open>The LISA cost forecast dashboard (dashboard.py)\<close>

text \<open>
  The dashboard is a script: it reads seventeen sidebar inputs, computes a year-indexed
  cost table (the data frame \<open>df\<close>), renders it and exports it with the dictionary
  \<open>assumptions\<close> to a two-sheet workbook. The embedding takes the seventeen inputs
  as one record and follows the script from the line \<open>years = list(range(...))\<close> on.

  Numbers. The sidebar inputs are Python integers (\<open>int\<close>). A division by 100 makes
  every derived quantity a binary64 float; these are modelled as \<open>real\<close>, that is
  without rounding and without overflow: the model's numbers are the exact values that
  the program's floats approximate. Two places where the program leaves the reals are
  modelled as numpy computes them: the division by a zero population (the type
  \<open>float64\<close> below) and the cast of a population to a 64-bit integer
  (\<open>astype_int\<close> below).

  Rounding itself is not modelled. A population that the program computes as
  719.9999999999999 and shows as 719 is 720 in the model, and two quotients that round
  to the same float are different reals. With a single year the program's arrays hold
  64-bit integers rather than floats; the model uses the reals there as well. The
  theorems below state how the columns are built from one another and do not rest on
  the last digit of a value.
\<close>

subsection \<open>Inputs\<close>

record inputs =
  start_year :: int
  end_year :: int
  customers_start :: int
  customers_growth :: int
  vehicles_per_customer :: int
  riders_per_vehicle :: int
  cost_per_vehicle_compute :: int
  cost_per_vehicle_db :: int
  cost_per_vehicle_bigquery :: int
  cost_per_vehicle_streaming :: int
  cost_per_vehicle_monitoring :: int
  cost_per_user_auth :: int
  cost_per_user_support :: int
  staff_support_per_customer :: int
  staff_devops_per_customer :: int
  infra_increase :: int
  staff_increase :: int

text \<open>The only exception the calculation can raise: pandas refuses columns of unequal
  length, and numpy refuses shapes that do not broadcast, both with a ValueError.\<close>

datatype error = ValueError

definition ebind :: "error + 'a \<Rightarrow> ('a \<Rightarrow> error + 'b) \<Rightarrow> error + 'b" where
  "ebind m f = (case m of Inl e \<Rightarrow> Inl e | Inr x \<Rightarrow> f x)"

subsection \<open>Years and populations\<close>

text \<open>\<^verbatim>\<open>years = list(range(start_year, end_year + 1)); n_years = len(years)\<close>\<close>

definition years :: "inputs \<Rightarrow> int list" where
  "years a = [start_year a..end_year a]"

definition n_years :: "inputs \<Rightarrow> nat" where
  "n_years a = length (years a)"

text \<open>
  \<^verbatim>\<open>
  customers = [customers_start]
  for _ in range(1, n_years):
      customers.append(customers[-1] * (1 + customers_growth / 100))
  \<close>
  The loop runs \<open>n_years - 1\<close> times, and not at all when \<open>n_years\<close> is 0 or 1; the
  list starts with one element in every case. Each product is the exact real product:
  the program rounds it to binary64 (see Numbers above), so its populations can differ
  from these in the last digits.
\<close>

fun customers_loop :: "real list \<Rightarrow> int \<Rightarrow> nat \<Rightarrow> real list" where
  "customers_loop cs g 0 = cs"
| "customers_loop cs g (Suc k) =
     customers_loop (cs @ [last cs * (1 + real_of_int g / 100)]) g k"

definition customers :: "inputs \<Rightarrow> real list" where
  "customers a =
     customers_loop [real_of_int (customers_start a)] (customers_growth a) (n_years a - 1)"

text \<open>\<^verbatim>\<open>vehicles = customers * vehicles_per_customer; users = vehicles * riders_per_vehicle\<close>\<close>

definition vehicles :: "inputs \<Rightarrow> real list" where
  "vehicles a = map (\<lambda>c. c * real_of_int (vehicles_per_customer a)) (customers a)"

definition users :: "inputs \<Rightarrow> real list" where
  "users a = map (\<lambda>v. v * real_of_int (riders_per_vehicle a)) (vehicles a)"

subsection \<open>numpy: broadcasting, arange, astype(int), division\<close>

text \<open>An elementwise operation on two one-dimensional arrays: equal lengths pair up, a
  length-one array is stretched to the other's length (also to length 0), anything else
  is a ValueError.\<close>

definition broadcast :: "('a \<Rightarrow> 'b \<Rightarrow> 'c) \<Rightarrow> 'a list \<Rightarrow> 'b list \<Rightarrow> error + 'c list" where
  "broadcast f xs ys =
     (if length xs = length ys then Inr (map2 f xs ys)
      else if length xs = 1 then Inr (map (f (hd xs)) ys)
      else if length ys = 1 then Inr (map (\<lambda>x. f x (hd ys)) xs)
      else Inl ValueError)"

definition arange :: "nat \<Rightarrow> nat list" where
  "arange n = [0..<n]"

text \<open>\<open>astype(int)\<close> casts a float to a 64-bit integer. It truncates towards zero; a
  float whose integer part does not fit (\<open>2 ^ 63\<close> or more, or less than \<open>- 2 ^ 63\<close>)
  becomes \<open>- 2 ^ 63\<close>, the value the processor's conversion returns. numpy warns
  and does not raise.\<close>

definition astype_int :: "real \<Rightarrow> int" where
  "astype_int x =
     (let k = (if 0 \<le> x then \<lfloor>x\<rfloor> else \<lceil>x\<rceil>)
      in if - (2 ^ 63) \<le> k \<and> k < 2 ^ 63 then k else - (2 ^ 63))"

text \<open>A float column divided by an integer column. numpy does not raise on a zero
  divisor: the quotient is an infinity with the sign of the dividend, or NaN for 0/0.\<close>

datatype float64 = Finite real | PosInf | NegInf | NaN

definition np_divide :: "real \<Rightarrow> int \<Rightarrow> float64" where
  "np_divide x d =
     (if d = 0 then (if 0 < x then PosInf else if x < 0 then NegInf else NaN)
      else Finite (x / real_of_int d))"

subsection \<open>Cost columns\<close>

text \<open>
  \<^verbatim>\<open>
  def apply_inflation(base_cost, rate_percent, years_index):
      return base_cost * ((1 + rate_percent/100) ** years_index)
  \<close>
  called with an array of base costs and \<open>np.arange(n_years)\<close>.
\<close>

definition apply_inflation :: "real list \<Rightarrow> int \<Rightarrow> nat list \<Rightarrow> error + real list" where
  "apply_inflation base_cost rate_percent years_index =
     broadcast (*) base_cost (map (\<lambda>i. (1 + real_of_int rate_percent / 100) ^ i) years_index)"

text \<open>\<open>rate * population\<close>, an integer times an array.\<close>

definition scale :: "int \<Rightarrow> real list \<Rightarrow> real list" where
  "scale r xs = map (\<lambda>x. real_of_int r * x) xs"

text \<open>The dictionary \<open>data\<close>: thirteen columns under fixed keys.\<close>

record data_cols =
  col_Year :: "int list"
  col_Customers :: "int list"
  col_Vehicles :: "int list"
  col_Users :: "int list"
  col_Compute :: "real list"
  col_DB :: "real list"
  col_BigQuery :: "real list"
  col_Streaming :: "real list"
  col_Monitoring :: "real list"
  col_Auth :: "real list"
  col_Support_Tools :: "real list"
  col_Support_Staff :: "real list"
  col_DevOps :: "real list"

definition data :: "inputs \<Rightarrow> error + data_cols" where
  "data a =
     (let idx = arange (n_years a) in
      ebind (apply_inflation (scale (cost_per_vehicle_compute a) (vehicles a)) (infra_increase a) idx) (\<lambda>compute.
      ebind (apply_inflation (scale (cost_per_vehicle_db a) (vehicles a)) (infra_increase a) idx) (\<lambda>db.
      ebind (apply_inflation (scale (cost_per_vehicle_bigquery a) (vehicles a)) (infra_increase a) idx) (\<lambda>bigquery.
      ebind (apply_inflation (scale (cost_per_vehicle_streaming a) (vehicles a)) (infra_increase a) idx) (\<lambda>streaming.
      ebind (apply_inflation (scale (cost_per_vehicle_monitoring a) (vehicles a)) (infra_increase a) idx) (\<lambda>monitoring.
      ebind (apply_inflation (scale (cost_per_user_auth a) (users a)) (infra_increase a) idx) (\<lambda>auth.
      ebind (apply_inflation (scale (cost_per_user_support a) (users a)) (infra_increase a) idx) (\<lambda>support.
      ebind (apply_inflation (scale (staff_support_per_customer a) (customers a)) (staff_increase a) idx) (\<lambda>staff.
      ebind (apply_inflation (scale (staff_devops_per_customer a) (customers a)) (staff_increase a) idx) (\<lambda>devops.
      Inr \<lparr> col_Year = years a,
            col_Customers = map astype_int (customers a),
            col_Vehicles = map astype_int (vehicles a),
            col_Users = map astype_int (users a),
            col_Compute = compute, col_DB = db, col_BigQuery = bigquery,
            col_Streaming = streaming, col_Monitoring = monitoring,
            col_Auth = auth, col_Support_Tools = support,
            col_Support_Staff = staff, col_DevOps = devops \<rparr>))))))))))"

subsection \<open>The data frame\<close>

text \<open>One row of \<open>df\<close> after the totals and the per-unit metrics have been added.\<close>

record forecast_row =
  Year :: int
  Customers :: int
  Vehicles :: int
  Users :: int
  Compute_Kubernetes :: real
  Transactional_DB :: real
  Analytics_BigQuery :: real
  Streaming :: real
  Monitoring :: real
  Auth_Firebase :: real
  Support_Tools_Intercom :: real
  Support_Staff :: real
  DevOps_Infra_Engineers :: real
  Total_Infrastructure :: real
  Total_Staff :: real
  Grand_Total :: real
  per_Vehicle :: float64
  per_User :: float64
  per_Customer :: float64

text \<open>\<open>pd.DataFrame(data)\<close> raises a ValueError unless all columns have one length.\<close>

definition same_length :: "data_cols \<Rightarrow> bool" where
  "same_length d \<longleftrightarrow>
     (let n = length (col_Year d) in
      length (col_Customers d) = n \<and> length (col_Vehicles d) = n \<and> length (col_Users d) = n \<and>
      length (col_Compute d) = n \<and> length (col_DB d) = n \<and> length (col_BigQuery d) = n \<and>
      length (col_Streaming d) = n \<and> length (col_Monitoring d) = n \<and>
      length (col_Auth d) = n \<and> length (col_Support_Tools d) = n \<and>
      length (col_Support_Staff d) = n \<and> length (col_DevOps d) = n)"

text \<open>
  Row \<open>i\<close> of the frame, with the six derived columns:
  \<^verbatim>\<open>
  df["Total Infrastructure"] = df[infra_cols].sum(axis=1)
  df["Total Staff"] = df[staff_cols].sum(axis=1)
  df["Grand Total"] = df["Total Infrastructure"] + df["Total Staff"]
  df["(EUR) per Vehicle"] = df["Grand Total"] / df["Vehicles"]
  df["(EUR) per User"] = df["Grand Total"] / df["Users"]
  df["(EUR) per Customer"] = df["Grand Total"] / df["Customers"]
  \<close>
\<close>

definition row_at :: "data_cols \<Rightarrow> nat \<Rightarrow> forecast_row" where
  "row_at d i =
     (let infra = sum_list [col_Compute d ! i, col_DB d ! i, col_BigQuery d ! i,
                            col_Streaming d ! i, col_Monitoring d ! i,
                            col_Auth d ! i, col_Support_Tools d ! i];
          staff = sum_list [col_Support_Staff d ! i, col_DevOps d ! i];
          grand = infra + staff
      in \<lparr> Year = col_Year d ! i,
           Customers = col_Customers d ! i,
           Vehicles = col_Vehicles d ! i,
           Users = col_Users d ! i,
           Compute_Kubernetes = col_Compute d ! i,
           Transactional_DB = col_DB d ! i,
           Analytics_BigQuery = col_BigQuery d ! i,
           Streaming = col_Streaming d ! i,
           Monitoring = col_Monitoring d ! i,
           Auth_Firebase = col_Auth d ! i,
           Support_Tools_Intercom = col_Support_Tools d ! i,
           Support_Staff = col_Support_Staff d ! i,
           DevOps_Infra_Engineers = col_DevOps d ! i,
           Total_Infrastructure = infra,
           Total_Staff = staff,
           Grand_Total = grand,
           per_Vehicle = np_divide grand (col_Vehicles d ! i),
           per_User = np_divide grand (col_Users d ! i),
           per_Customer = np_divide grand (col_Customers d ! i) \<rparr>)"

definition DataFrame :: "data_cols \<Rightarrow> error + forecast_row list" where
  "DataFrame d =
     (if same_length d then Inr (map (row_at d) [0..<length (col_Year d)])
      else Inl ValueError)"

definition df :: "inputs \<Rightarrow> error + forecast_row list" where
  "df a = ebind (data a) DataFrame"

subsection \<open>Excel export\<close>

text \<open>The dictionary \<open>assumptions\<close>, in insertion order, as \<open>assumptions.items()\<close>
  lists it.\<close>

definition assumptions :: "inputs \<Rightarrow> (string \<times> int) list" where
  "assumptions a =
     [(''Start Year'', start_year a),
      (''End Year'', end_year a),
      (''Starting Customers'', customers_start a),
      (''Annual Customer Growth (%)'', customers_growth a),
      (''Vehicles per Customer'', vehicles_per_customer a),
      (''Riders per Vehicle'', riders_per_vehicle a),
      (''Infrastructure Inflation (%)'', infra_increase a),
      (''Staff Inflation (%)'', staff_increase a)]"

text \<open>The workbook: the sheets in the order they are written, each under its name. The
  script reaches the export only when \<open>df\<close> was built.\<close>

datatype sheet = Frame "forecast_row list" | Items "(string \<times> int) list"

definition excel_data :: "inputs \<Rightarrow> error + (string \<times> sheet) list" where
  "excel_data a =
     ebind (df a) (\<lambda>t. Inr [(''Forecast'', Frame t), (''Assumptions'', Items (assumptions a))])"

subsection \<open>Reference inputs\<close>

text \<open>The values the sidebar widgets start with (their \<open>value=\<close> arguments).\<close>

definition default_inputs :: inputs where
  "default_inputs =
     \<lparr> start_year = 2025, end_year = 2030, customers_start = 10, customers_growth = 50,
       vehicles_per_customer = 50, riders_per_vehicle = 10,
       cost_per_vehicle_compute = 50, cost_per_vehicle_db = 15,
       cost_per_vehicle_bigquery = 10, cost_per_vehicle_streaming = 8,
       cost_per_vehicle_monitoring = 5, cost_per_user_auth = 1, cost_per_user_support = 1,
       staff_support_per_customer = 1000, staff_devops_per_customer = 2000,
       infra_increase = 5, staff_increase = 5 \<rparr>"

section \<open>Basic facts\<close>

lemma ebind_Inr [simp]: "ebind (Inr x) f = f x"
  by (simp add: ebind_def)

lemma ebind_Inl [simp]: "ebind (Inl e) f = Inl e"
  by (simp add: ebind_def)

lemma n_years_eq: "n_years a = nat (end_year a - start_year a + 1)"
  by (simp add: n_years_def years_def)

subsection \<open>The customer loop computes a geometric sequence\<close>

lemma length_customers_loop: "length (customers_loop cs g k) = length cs + k"
  by (induction k arbitrary: cs) simp_all

lemma nth_customers_loop:
  "cs \<noteq> [] \<Longrightarrow> i < length cs + k \<Longrightarrow>
   customers_loop cs g k ! i =
     (if i < length cs then cs ! i
      else last cs * (1 + real_of_int g / 100) ^ (Suc i - length cs))"
proof (induction k arbitrary: cs)
  case 0
  then show ?case by simp
next
  case (Suc k)
  let ?q = "1 + real_of_int g / 100"
  let ?cs = "cs @ [last cs * ?q]"
  have step: "customers_loop cs g (Suc k) ! i =
      (if i < length ?cs then ?cs ! i else last ?cs * ?q ^ (Suc i - length ?cs))"
    using Suc.IH [of ?cs] Suc.prems by simp
  consider "i < length cs" | "i = length cs" | "length cs < i" by linarith
  then show ?case
  proof cases
    case 1
    then show ?thesis using step by (simp add: nth_append)
  next
    case 2
    then show ?thesis using step by (simp add: nth_append)
  next
    case 3
    then have "Suc i - length cs = Suc (i - length cs)" by simp
    then show ?thesis using step 3 by simp
  qed
qed

lemma length_customers: "length (customers a) = max 1 (n_years a)"
  by (simp add: customers_def length_customers_loop)

lemma nth_customers:
  "i < max 1 (n_years a) \<Longrightarrow>
   customers a ! i =
     real_of_int (customers_start a) * (1 + real_of_int (customers_growth a) / 100) ^ i"
  using nth_customers_loop [of "[real_of_int (customers_start a)]" i "n_years a - 1"
      "customers_growth a"]
  by (cases i) (auto simp: customers_def)

lemma length_vehicles: "length (vehicles a) = max 1 (n_years a)"
  by (simp add: vehicles_def length_customers)

lemma length_users: "length (users a) = max 1 (n_years a)"
  by (simp add: users_def length_vehicles)

lemma nth_vehicles:
  "i < max 1 (n_years a) \<Longrightarrow>
   vehicles a ! i = customers a ! i * real_of_int (vehicles_per_customer a)"
  by (simp add: vehicles_def length_customers)

lemma nth_users:
  "i < max 1 (n_years a) \<Longrightarrow>
   users a ! i = vehicles a ! i * real_of_int (riders_per_vehicle a)"
  by (simp add: users_def length_vehicles)

subsection \<open>The cost columns never fail to broadcast\<close>

lemma apply_inflation_scale:
  assumes "length xs = max 1 n"
  shows "apply_inflation (scale r xs) p (arange n) =
         Inr (map (\<lambda>i. real_of_int r * xs ! i * (1 + real_of_int p / 100) ^ i) [0..<n])"
proof (cases "n = 0")
  case True
  with assms show ?thesis
    by (simp add: apply_inflation_def broadcast_def scale_def arange_def)
next
  case False
  with assms have len: "length xs = n" by simp
  have "map2 (*) (scale r xs) (map (\<lambda>i. (1 + real_of_int p / 100) ^ i) [0..<n]) =
        map (\<lambda>i. real_of_int r * xs ! i * (1 + real_of_int p / 100) ^ i) [0..<n]"
    by (rule nth_equalityI) (simp_all add: len scale_def)
  then show ?thesis
    by (simp add: apply_inflation_def broadcast_def arange_def len scale_def)
qed

lemma data_eq:
  "data a = Inr
     \<lparr> col_Year = years a,
       col_Customers = map astype_int (customers a),
       col_Vehicles = map astype_int (vehicles a),
       col_Users = map astype_int (users a),
       col_Compute = map (\<lambda>i. real_of_int (cost_per_vehicle_compute a) * vehicles a ! i *
           (1 + real_of_int (infra_increase a) / 100) ^ i) [0..<n_years a],
       col_DB = map (\<lambda>i. real_of_int (cost_per_vehicle_db a) * vehicles a ! i *
           (1 + real_of_int (infra_increase a) / 100) ^ i) [0..<n_years a],
       col_BigQuery = map (\<lambda>i. real_of_int (cost_per_vehicle_bigquery a) * vehicles a ! i *
           (1 + real_of_int (infra_increase a) / 100) ^ i) [0..<n_years a],
       col_Streaming = map (\<lambda>i. real_of_int (cost_per_vehicle_streaming a) * vehicles a ! i *
           (1 + real_of_int (infra_increase a) / 100) ^ i) [0..<n_years a],
       col_Monitoring = map (\<lambda>i. real_of_int (cost_per_vehicle_monitoring a) * vehicles a ! i *
           (1 + real_of_int (infra_increase a) / 100) ^ i) [0..<n_years a],
       col_Auth = map (\<lambda>i. real_of_int (cost_per_user_auth a) * users a ! i *
           (1 + real_of_int (infra_increase a) / 100) ^ i) [0..<n_years a],
       col_Support_Tools = map (\<lambda>i. real_of_int (cost_per_user_support a) * users a ! i *
           (1 + real_of_int (infra_increase a) / 100) ^ i) [0..<n_years a],
       col_Support_Staff = map (\<lambda>i. real_of_int (staff_support_per_customer a) * customers a ! i *
           (1 + real_of_int (staff_increase a) / 100) ^ i) [0..<n_years a],
       col_DevOps = map (\<lambda>i. real_of_int (staff_devops_per_customer a) * customers a ! i *
           (1 + real_of_int (staff_increase a) / 100) ^ i) [0..<n_years a] \<rparr>"
  by (simp add: data_def apply_inflation_scale length_customers length_vehicles length_users)

subsection \<open>The frame, row by row\<close>

lemma df_eq:
  "df a = (if end_year a < start_year a then Inl ValueError
           else Inr (map (row_at (projr (data a))) [0..<n_years a]))"
  by (simp add: df_def data_eq DataFrame_def same_length_def length_customers length_vehicles
      length_users n_years_eq years_def)

lemma df_nth:
  assumes "df a = Inr t" and "i < length t"
  shows "start_year a \<le> end_year a" and "length t = n_years a"
    and "t ! i = row_at (projr (data a)) i"
  using assms by (auto simp: df_eq split: if_splits)

lemma df_projr: "start_year a \<le> end_year a \<Longrightarrow> df a = Inr (projr (df a))"
  by (simp add: df_eq)

lemma length_df: "start_year a \<le> end_year a \<Longrightarrow> length (projr (df a)) = n_years a"
  by (simp add: df_eq)

lemma nth_df:
  "start_year a \<le> end_year a \<Longrightarrow> i < n_years a \<Longrightarrow>
   projr (df a) ! i = row_at (projr (data a)) i"
  by (simp add: df_eq)

lemma row_at_data:
  assumes "i < n_years a"
  shows "Year (row_at (projr (data a)) i) = start_year a + int i"
    and "Customers (row_at (projr (data a)) i) = astype_int (customers a ! i)"
    and "Vehicles (row_at (projr (data a)) i) = astype_int (vehicles a ! i)"
    and "Users (row_at (projr (data a)) i) = astype_int (users a ! i)"
    and "Compute_Kubernetes (row_at (projr (data a)) i) =
           real_of_int (cost_per_vehicle_compute a) * vehicles a ! i *
           (1 + real_of_int (infra_increase a) / 100) ^ i"
    and "Transactional_DB (row_at (projr (data a)) i) =
           real_of_int (cost_per_vehicle_db a) * vehicles a ! i *
           (1 + real_of_int (infra_increase a) / 100) ^ i"
    and "Analytics_BigQuery (row_at (projr (data a)) i) =
           real_of_int (cost_per_vehicle_bigquery a) * vehicles a ! i *
           (1 + real_of_int (infra_increase a) / 100) ^ i"
    and "Streaming (row_at (projr (data a)) i) =
           real_of_int (cost_per_vehicle_streaming a) * vehicles a ! i *
           (1 + real_of_int (infra_increase a) / 100) ^ i"
    and "Monitoring (row_at (projr (data a)) i) =
           real_of_int (cost_per_vehicle_monitoring a) * vehicles a ! i *
           (1 + real_of_int (infra_increase a) / 100) ^ i"
    and "Auth_Firebase (row_at (projr (data a)) i) =
           real_of_int (cost_per_user_auth a) * users a ! i *
           (1 + real_of_int (infra_increase a) / 100) ^ i"
    and "Support_Tools_Intercom (row_at (projr (data a)) i) =
           real_of_int (cost_per_user_support a) * users a ! i *
           (1 + real_of_int (infra_increase a) / 100) ^ i"
    and "Support_Staff (row_at (projr (data a)) i) =
           real_of_int (staff_support_per_customer a) * customers a ! i *
           (1 + real_of_int (staff_increase a) / 100) ^ i"
    and "DevOps_Infra_Engineers (row_at (projr (data a)) i) =
           real_of_int (staff_devops_per_customer a) * customers a ! i *
           (1 + real_of_int (staff_increase a) / 100) ^ i"
  using assms
  by (simp_all add: row_at_def data_eq Let_def length_customers length_vehicles length_users
      years_def n_years_eq)

lemma row_at_totals:
  "Total_Infrastructure (row_at d i) =
     Compute_Kubernetes (row_at d i) + Transactional_DB (row_at d i) +
     Analytics_BigQuery (row_at d i) + Streaming (row_at d i) + Monitoring (row_at d i) +
     Auth_Firebase (row_at d i) + Support_Tools_Intercom (row_at d i)"
  "Total_Staff (row_at d i) = Support_Staff (row_at d i) + DevOps_Infra_Engineers (row_at d i)"
  "Grand_Total (row_at d i) = Total_Infrastructure (row_at d i) + Total_Staff (row_at d i)"
  by (simp_all add: row_at_def Let_def)

lemma row_at_ratios:
  "per_Vehicle (row_at d i) = np_divide (Grand_Total (row_at d i)) (Vehicles (row_at d i))"
  "per_User (row_at d i) = np_divide (Grand_Total (row_at d i)) (Users (row_at d i))"
  "per_Customer (row_at d i) = np_divide (Grand_Total (row_at d i)) (Customers (row_at d i))"
  by (simp_all add: row_at_def Let_def)

subsection \<open>Monotonicity of the building blocks\<close>







subsection \<open>Division and export\<close>

lemma np_divide_neq:
  "g \<noteq> 0 \<Longrightarrow> real_of_int k \<noteq> p \<Longrightarrow> np_divide g k \<noteq> Finite (g / p)"
  by (auto simp: np_divide_def field_simps)

lemma excel_data_eq:
  "start_year a \<le> end_year a \<Longrightarrow>
   excel_data a =
     Inr [(''Forecast'', Frame (projr (df a))), (''Assumptions'', Items (assumptions a))]"
  by (simp add: excel_data_def df_eq)


lemma default_range:
  "start_year default_inputs \<le> end_year default_inputs" "n_years default_inputs = 6"
  by (simp_all add: n_years_eq default_inputs_def)

section \<open>The year range\<close>

text \<open>
  Claim C1, as the script behaves. The script has no range check of its own. An inverted
  range (\<open>end_year < start_year\<close>) makes \<open>years\<close> empty while \<open>customers\<close> keeps its
  first element, so \<open>pd.DataFrame\<close> raises a ValueError and no table is built. Every
  other range, the single year \<open>end_year = start_year\<close> included, yields a table.
\<close>

theorem df_year_range:
  "(end_year a < start_year a \<longrightarrow> df a = Inl ValueError) \<and>
   (start_year a \<le> end_year a \<longrightarrow> (\<exists>t. df a = Inr t))"
  by (simp add: df_eq)

theorem df_year_range_witness:
  "end_year (default_inputs\<lparr>end_year := 2024\<rparr>) < start_year (default_inputs\<lparr>end_year := 2024\<rparr>) \<and>
   df (default_inputs\<lparr>end_year := 2024\<rparr>) = Inl ValueError \<and>
   start_year (default_inputs\<lparr>end_year := 2025\<rparr>) \<le> end_year (default_inputs\<lparr>end_year := 2025\<rparr>) \<and>
   (\<exists>t. df (default_inputs\<lparr>end_year := 2025\<rparr>) = Inr t)"
  using df_year_range [of "default_inputs\<lparr>end_year := 2024\<rparr>"]
    df_year_range [of "default_inputs\<lparr>end_year := 2025\<rparr>"]
  by (simp add: default_inputs_def)

text \<open>
  Claim C1 as stated asks for a failure whenever \<open>end_year \<le> start_year\<close>. With the
  sidebar defaults and \<open>end_year = start_year = 2025\<close> the script does not fail: it
  builds a table of one row.
\<close>

theorem single_year_range_counterexample:
  "end_year (default_inputs\<lparr>end_year := 2025\<rparr>) \<le> start_year (default_inputs\<lparr>end_year := 2025\<rparr>) \<and>
   \<not> isl (df (default_inputs\<lparr>end_year := 2025\<rparr>)) \<and>
   length (projr (df (default_inputs\<lparr>end_year := 2025\<rparr>))) = 1"
  by (simp add: df_eq default_inputs_def n_years_eq)

text \<open>
  Claim C4. For \<open>end_year > start_year\<close> the table has \<open>end_year - start_year + 1\<close>
  rows, and row \<open>i\<close> carries the year \<open>start_year + i\<close>.
\<close>

theorem forecast_years:
  "start_year a < end_year a \<Longrightarrow>
   \<exists>t. df a = Inr t \<and> int (length t) = end_year a - start_year a + 1 \<and>
       (\<forall>i<length t. Year (t ! i) = start_year a + int i)"
  by (simp add: df_eq row_at_data n_years_eq)

theorem forecast_years_witness:
  "start_year default_inputs < end_year default_inputs \<and>
   \<not> isl (df default_inputs) \<and>
   map Year (projr (df default_inputs)) = [2025, 2026, 2027, 2028, 2029, 2030]"
proof -
  have lt: "start_year default_inputs < end_year default_inputs"
    by (simp add: default_inputs_def)
  from forecast_years [OF lt] obtain t where t: "df default_inputs = Inr t"
    and len: "int (length t) = end_year default_inputs - start_year default_inputs + 1"
    and yr: "\<forall>i<length t. Year (t ! i) = start_year default_inputs + int i"
    by blast
  from len have l6: "length t = 6" by (simp add: default_inputs_def)
  have "map Year t = [2025, 2026, 2027, 2028, 2029, 2030]"
  proof (rule nth_equalityI)
    show "length (map Year t) = length [2025, 2026, 2027, 2028, 2029, 2030::int]"
      using l6 by simp
  next
    fix i assume "i < length (map Year t)"
    then have i: "i < 6" using l6 by simp
    then have "Year (t ! i) = 2025 + int i" using yr l6 by (simp add: default_inputs_def)
    moreover from i have "i \<in> {0, 1, 2, 3, 4, 5}" by auto
    ultimately show "map Year t ! i = [2025, 2026, 2027, 2028, 2029, 2030] ! i"
      using i l6 by auto
  qed
  with t lt show ?thesis by simp
qed

text \<open>
  Claim C8. The single-year scenario: start and end year 2025, 10 customers, no growth,
  50 vehicles per customer, 10 riders per vehicle and a compute rate of 50 give a table
  of one row with 500 vehicles and a Compute & Kubernetes cost of 25000, whatever the
  other inputs are.
\<close>

theorem single_year_scenario:
  assumes "start_year a = 2025" and "end_year a = 2025"
    and "customers_start a = 10" and "customers_growth a = 0"
    and "vehicles_per_customer a = 50" and "riders_per_vehicle a = 10"
    and "cost_per_vehicle_compute a = 50"
  shows "\<exists>r. df a = Inr [r] \<and> Vehicles r = 500 \<and> Compute_Kubernetes r = 25000"
proof -
  have n: "n_years a = 1" using assms by (simp add: n_years_eq)
  have v: "vehicles a ! 0 = 500"
    using assms n by (simp add: nth_vehicles nth_customers)
  have "df a = Inr [row_at (projr (data a)) 0]"
    using assms n by (simp add: df_eq)
  moreover have "Vehicles (row_at (projr (data a)) 0) = 500"
    using n v by (simp add: row_at_data astype_int_def Let_def)
  moreover have "Compute_Kubernetes (row_at (projr (data a)) 0) = 25000"
    using n v assms by (simp add: row_at_data)
  ultimately show ?thesis by blast
qed

theorem single_year_scenario_witness:
  "start_year (default_inputs\<lparr>end_year := 2025, customers_growth := 0\<rparr>) = 2025 \<and>
   end_year (default_inputs\<lparr>end_year := 2025, customers_growth := 0\<rparr>) = 2025 \<and>
   customers_start (default_inputs\<lparr>end_year := 2025, customers_growth := 0\<rparr>) = 10 \<and>
   customers_growth (default_inputs\<lparr>end_year := 2025, customers_growth := 0\<rparr>) = 0 \<and>
   vehicles_per_customer (default_inputs\<lparr>end_year := 2025, customers_growth := 0\<rparr>) = 50 \<and>
   riders_per_vehicle (default_inputs\<lparr>end_year := 2025, customers_growth := 0\<rparr>) = 10 \<and>
   cost_per_vehicle_compute (default_inputs\<lparr>end_year := 2025, customers_growth := 0\<rparr>) = 50 \<and>
   (\<exists>r. df (default_inputs\<lparr>end_year := 2025, customers_growth := 0\<rparr>) = Inr [r] \<and>
        Vehicles r = 500 \<and> Compute_Kubernetes r = 25000)"
  using single_year_scenario [of "default_inputs\<lparr>end_year := 2025, customers_growth := 0\<rparr>"]
  by (simp add: default_inputs_def)

section \<open>Cost components and totals\<close>

text \<open>
  Claim C5. In every row, Total Infrastructure is the sum of the seven infrastructure
  components, Total Staff the sum of the two staffing components, and Grand Total the
  sum of the two totals. (Over the reals the sums are exact.)
\<close>

theorem additivity:
  "df a = Inr t \<Longrightarrow> i < length t \<Longrightarrow>
   Total_Infrastructure (t ! i) =
     Compute_Kubernetes (t ! i) + Transactional_DB (t ! i) + Analytics_BigQuery (t ! i) +
     Streaming (t ! i) + Monitoring (t ! i) + Auth_Firebase (t ! i) +
     Support_Tools_Intercom (t ! i) \<and>
   Total_Staff (t ! i) = Support_Staff (t ! i) + DevOps_Infra_Engineers (t ! i) \<and>
   Grand_Total (t ! i) = Total_Infrastructure (t ! i) + Total_Staff (t ! i)"
  by (simp add: df_nth(3) row_at_totals)

theorem additivity_witness:
  "df default_inputs = Inr (projr (df default_inputs)) \<and>
   1 < length (projr (df default_inputs)) \<and>
   Total_Infrastructure (projr (df default_inputs) ! 1) =
     Compute_Kubernetes (projr (df default_inputs) ! 1) +
     Transactional_DB (projr (df default_inputs) ! 1) +
     Analytics_BigQuery (projr (df default_inputs) ! 1) +
     Streaming (projr (df default_inputs) ! 1) + Monitoring (projr (df default_inputs) ! 1) +
     Auth_Firebase (projr (df default_inputs) ! 1) +
     Support_Tools_Intercom (projr (df default_inputs) ! 1) \<and>
   Total_Staff (projr (df default_inputs) ! 1) =
     Support_Staff (projr (df default_inputs) ! 1) +
     DevOps_Infra_Engineers (projr (df default_inputs) ! 1) \<and>
   Grand_Total (projr (df default_inputs) ! 1) =
     Total_Infrastructure (projr (df default_inputs) ! 1) +
     Total_Staff (projr (df default_inputs) ! 1) \<and>
   Grand_Total (projr (df default_inputs) ! 1) = 132300"
proof -
  have le: "start_year default_inputs \<le> end_year default_inputs"
    by (simp add: default_inputs_def)
  have n: "n_years default_inputs = 6"
    by (simp add: n_years_eq default_inputs_def)
  have a: "df default_inputs = Inr (projr (df default_inputs))"
    by (rule df_projr [OF le])
  have b: "1 < length (projr (df default_inputs))"
    by (simp add: length_df [OF le] n)
  have c: "Grand_Total (projr (df default_inputs) ! 1) = 132300"
    by (simp add: nth_df [OF le] n row_at_totals row_at_data nth_users nth_vehicles
        nth_customers) (simp add: default_inputs_def)
  from additivity [OF a b] a b c show ?thesis by simp
qed

text \<open>
  Claim C3. The two user-based components, Auth and Support Tools, are the rate times
  the users population of that year (itself the vehicles population times the riders
  per vehicle) times the infrastructure inflation multiplier \<open>(1 + infra/100) ^ i\<close>.
\<close>

theorem user_based_components:
  "df a = Inr t \<Longrightarrow> i < length t \<Longrightarrow>
   Auth_Firebase (t ! i) =
     real_of_int (cost_per_user_auth a) * users a ! i *
     (1 + real_of_int (infra_increase a) / 100) ^ i \<and>
   Support_Tools_Intercom (t ! i) =
     real_of_int (cost_per_user_support a) * users a ! i *
     (1 + real_of_int (infra_increase a) / 100) ^ i \<and>
   users a ! i = vehicles a ! i * real_of_int (riders_per_vehicle a)"
  using df_nth [of a t i] by (simp add: row_at_data nth_users)

theorem user_based_components_witness:
  "df default_inputs = Inr (projr (df default_inputs)) \<and>
   1 < length (projr (df default_inputs)) \<and>
   users default_inputs ! 1 = 7500 \<and> vehicles default_inputs ! 1 = 750 \<and>
   Auth_Firebase (projr (df default_inputs) ! 1) = 7875 \<and>
   Support_Tools_Intercom (projr (df default_inputs) ! 1) = 7875"
proof -
  have a: "df default_inputs = Inr (projr (df default_inputs))"
    by (rule df_projr) (simp add: default_inputs_def)
  have b: "1 < length (projr (df default_inputs))"
    by (simp add: length_df default_range)
  have v: "vehicles default_inputs ! 1 = 750"
    by (simp add: nth_vehicles nth_customers default_range) (simp add: default_inputs_def)
  from user_based_components [OF a b] a b v show ?thesis
    by (simp add: default_inputs_def)
qed

text \<open>
  Claim C7, as the script behaves. With an infrastructure inflation of 0 the inflation
  multiplier is 1: each of the seven infrastructure components of year \<open>i\<close> is its rate
  times the population of year \<open>i\<close>. Population growth still applies, so the component
  equals its year-0 value when the customer growth is 0 as well.
\<close>

theorem no_inflation_identity:
  assumes "infra_increase a = 0" and "df a = Inr t" and "i < length t"
  shows "Compute_Kubernetes (t ! i) = real_of_int (cost_per_vehicle_compute a) * vehicles a ! i \<and>
     Transactional_DB (t ! i) = real_of_int (cost_per_vehicle_db a) * vehicles a ! i \<and>
     Analytics_BigQuery (t ! i) = real_of_int (cost_per_vehicle_bigquery a) * vehicles a ! i \<and>
     Streaming (t ! i) = real_of_int (cost_per_vehicle_streaming a) * vehicles a ! i \<and>
     Monitoring (t ! i) = real_of_int (cost_per_vehicle_monitoring a) * vehicles a ! i \<and>
     Auth_Firebase (t ! i) = real_of_int (cost_per_user_auth a) * users a ! i \<and>
     Support_Tools_Intercom (t ! i) = real_of_int (cost_per_user_support a) * users a ! i \<and>
     (customers_growth a = 0 \<longrightarrow>
        Compute_Kubernetes (t ! i) = Compute_Kubernetes (t ! 0) \<and>
        Transactional_DB (t ! i) = Transactional_DB (t ! 0) \<and>
        Analytics_BigQuery (t ! i) = Analytics_BigQuery (t ! 0) \<and>
        Streaming (t ! i) = Streaming (t ! 0) \<and>
        Monitoring (t ! i) = Monitoring (t ! 0) \<and>
        Auth_Firebase (t ! i) = Auth_Firebase (t ! 0) \<and>
        Support_Tools_Intercom (t ! i) = Support_Tools_Intercom (t ! 0))"
proof -
  from assms have i: "i < n_years a" and z: "0 < n_years a"
    and ri: "t ! i = row_at (projr (data a)) i"
    using df_nth [of a t i] by auto
  from assms have "0 < length t" by auto
  with assms have r0: "t ! 0 = row_at (projr (data a)) 0"
    using df_nth [of a t 0] by simp
  show ?thesis
    using i z assms(1)
    by (simp add: ri r0 row_at_data nth_users nth_vehicles nth_customers)
qed

theorem no_inflation_identity_witness:
  "infra_increase (default_inputs\<lparr>infra_increase := 0, customers_growth := 0\<rparr>) = 0 \<and>
   customers_growth (default_inputs\<lparr>infra_increase := 0, customers_growth := 0\<rparr>) = 0 \<and>
   1 < length (projr (df (default_inputs\<lparr>infra_increase := 0, customers_growth := 0\<rparr>))) \<and>
   Compute_Kubernetes (projr (df (default_inputs\<lparr>infra_increase := 0, customers_growth := 0\<rparr>)) ! 1) =
     Compute_Kubernetes (projr (df (default_inputs\<lparr>infra_increase := 0, customers_growth := 0\<rparr>)) ! 0) \<and>
   Auth_Firebase (projr (df (default_inputs\<lparr>infra_increase := 0, customers_growth := 0\<rparr>)) ! 1) =
     Auth_Firebase (projr (df (default_inputs\<lparr>infra_increase := 0, customers_growth := 0\<rparr>)) ! 0)"
proof -
  let ?a = "default_inputs\<lparr>infra_increase := 0, customers_growth := 0\<rparr>"
  have le: "start_year ?a \<le> end_year ?a" and n: "n_years ?a = 6"
    by (simp_all add: n_years_eq default_inputs_def)
  have z: "infra_increase ?a = 0" "customers_growth ?a = 0" by simp_all
  have b: "1 < length (projr (df ?a))"
    by (simp add: length_df [OF le] n)
  from no_inflation_identity [OF z(1) df_projr [OF le] b] z b show ?thesis
    by simp
qed

text \<open>
  Claim C7 as stated makes every infrastructure component constant over the years once
  the infrastructure inflation is 0. With the sidebar defaults and an inflation of 0,
  Compute & Kubernetes is 25000 in the first year and 37500 in the second: the
  customers grew by 50 percent.
\<close>

theorem no_inflation_counterexample:
  "infra_increase (default_inputs\<lparr>infra_increase := 0\<rparr>) = 0 \<and>
   Compute_Kubernetes (projr (df (default_inputs\<lparr>infra_increase := 0\<rparr>)) ! 0) = 25000 \<and>
   Compute_Kubernetes (projr (df (default_inputs\<lparr>infra_increase := 0\<rparr>)) ! 1) = 37500"
proof -
  let ?a = "default_inputs\<lparr>infra_increase := 0\<rparr>"
  have le: "start_year ?a \<le> end_year ?a" and n: "n_years ?a = 6"
    by (simp_all add: n_years_eq default_inputs_def)
  show ?thesis
    by (simp add: nth_df [OF le] n row_at_data nth_vehicles nth_customers)
      (simp add: default_inputs_def)
qed

section \<open>Per-unit ratios\<close>

text \<open>
  Claim C2, as the script behaves. A zero population does not raise: every valid range
  yields a table. In a row whose (truncated) vehicles, users or customers population is
  0, the corresponding ratio is the quotient numpy computes: plus infinity for a
  positive grand total, minus infinity for a negative one, NaN for a grand total of 0.
\<close>

theorem zero_population_ratio:
  "start_year a \<le> end_year a \<Longrightarrow>
   \<exists>t. df a = Inr t \<and>
     (\<forall>i<length t.
        (Vehicles (t ! i) = 0 \<longrightarrow>
           per_Vehicle (t ! i) =
             (if 0 < Grand_Total (t ! i) then PosInf
              else if Grand_Total (t ! i) < 0 then NegInf else NaN)) \<and>
        (Users (t ! i) = 0 \<longrightarrow>
           per_User (t ! i) =
             (if 0 < Grand_Total (t ! i) then PosInf
              else if Grand_Total (t ! i) < 0 then NegInf else NaN)) \<and>
        (Customers (t ! i) = 0 \<longrightarrow>
           per_Customer (t ! i) =
             (if 0 < Grand_Total (t ! i) then PosInf
              else if Grand_Total (t ! i) < 0 then NegInf else NaN)))"
  by (simp add: df_eq row_at_ratios np_divide_def)

theorem zero_population_ratio_witness:
  "start_year (default_inputs\<lparr>customers_start := 0\<rparr>) \<le> end_year (default_inputs\<lparr>customers_start := 0\<rparr>) \<and>
   \<not> isl (df (default_inputs\<lparr>customers_start := 0\<rparr>)) \<and>
   Vehicles (projr (df (default_inputs\<lparr>customers_start := 0\<rparr>)) ! 0) = 0 \<and>
   Users (projr (df (default_inputs\<lparr>customers_start := 0\<rparr>)) ! 0) = 0 \<and>
   Customers (projr (df (default_inputs\<lparr>customers_start := 0\<rparr>)) ! 0) = 0 \<and>
   Grand_Total (projr (df (default_inputs\<lparr>customers_start := 0\<rparr>)) ! 0) = 0 \<and>
   per_Vehicle (projr (df (default_inputs\<lparr>customers_start := 0\<rparr>)) ! 0) = NaN \<and>
   per_User (projr (df (default_inputs\<lparr>customers_start := 0\<rparr>)) ! 0) = NaN \<and>
   per_Customer (projr (df (default_inputs\<lparr>customers_start := 0\<rparr>)) ! 0) = NaN"
proof -
  let ?a = "default_inputs\<lparr>customers_start := 0\<rparr>"
  have le: "start_year ?a \<le> end_year ?a" and n: "n_years ?a = 6"
    by (simp_all add: n_years_eq default_inputs_def)
  have v: "vehicles ?a ! 0 = 0" "users ?a ! 0 = 0" "customers ?a ! 0 = 0"
    by (simp_all add: nth_users nth_vehicles nth_customers n)
  have g: "Grand_Total (projr (df ?a) ! 0) = 0"
    by (simp add: nth_df [OF le] n row_at_totals row_at_data v)
  have p: "Vehicles (projr (df ?a) ! 0) = 0" "Users (projr (df ?a) ! 0) = 0"
    "Customers (projr (df ?a) ! 0) = 0"
    by (simp_all add: nth_df [OF le] n row_at_data v astype_int_def Let_def)
  have len: "0 < length (projr (df ?a))"
    by (simp add: length_df [OF le] n)
  from zero_population_ratio [OF le] obtain t where t: "df ?a = Inr t"
    and z: "\<forall>i<length t.
        (Vehicles (t ! i) = 0 \<longrightarrow>
           per_Vehicle (t ! i) =
             (if 0 < Grand_Total (t ! i) then PosInf
              else if Grand_Total (t ! i) < 0 then NegInf else NaN)) \<and>
        (Users (t ! i) = 0 \<longrightarrow>
           per_User (t ! i) =
             (if 0 < Grand_Total (t ! i) then PosInf
              else if Grand_Total (t ! i) < 0 then NegInf else NaN)) \<and>
        (Customers (t ! i) = 0 \<longrightarrow>
           per_Customer (t ! i) =
             (if 0 < Grand_Total (t ! i) then PosInf
              else if Grand_Total (t ! i) < 0 then NegInf else NaN))"
    by blast
  from t have pt: "projr (df ?a) = t" by simp
  from z len pt have
    "(Vehicles (t ! 0) = 0 \<longrightarrow>
           per_Vehicle (t ! 0) =
             (if 0 < Grand_Total (t ! 0) then PosInf
              else if Grand_Total (t ! 0) < 0 then NegInf else NaN)) \<and>
        (Users (t ! 0) = 0 \<longrightarrow>
           per_User (t ! 0) =
             (if 0 < Grand_Total (t ! 0) then PosInf
              else if Grand_Total (t ! 0) < 0 then NegInf else NaN)) \<and>
        (Customers (t ! 0) = 0 \<longrightarrow>
           per_Customer (t ! 0) =
             (if 0 < Grand_Total (t ! 0) then PosInf
              else if Grand_Total (t ! 0) < 0 then NegInf else NaN))"
    by simp
  with g p pt t le show ?thesis by simp
qed

text \<open>
  Claim C2 as stated says that no infinity reaches the output. With the sidebar defaults
  and 0 vehicles per customer, the first row has 0 vehicles, a grand total of 30000
  (the staff costs), and a per-vehicle ratio of plus infinity.
\<close>

theorem zero_population_counterexample:
  "Vehicles (projr (df (default_inputs\<lparr>vehicles_per_customer := 0\<rparr>)) ! 0) = 0 \<and>
   per_Vehicle (projr (df (default_inputs\<lparr>vehicles_per_customer := 0\<rparr>)) ! 0) = PosInf"
proof -
  let ?a = "default_inputs\<lparr>vehicles_per_customer := 0\<rparr>"
  have le: "start_year ?a \<le> end_year ?a" and n: "n_years ?a = 6"
    by (simp_all add: n_years_eq default_inputs_def)
  have v: "vehicles ?a ! 0 = 0" "users ?a ! 0 = 0" "customers ?a ! 0 = 10"
    by (simp_all add: nth_users nth_vehicles nth_customers n) (simp_all add: default_inputs_def)
  have g: "Grand_Total (row_at (projr (data ?a)) 0) = 30000"
    by (simp add: row_at_totals row_at_data n v) (simp add: default_inputs_def)
  show ?thesis
    by (simp add: nth_df [OF le] n row_at_ratios g row_at_data v astype_int_def Let_def
        np_divide_def)
qed

text \<open>
  Claim C10, as the script behaves. The three ratios divide the grand total by the
  integer columns \<open>Vehicles\<close>, \<open>Users\<close> and \<open>Customers\<close>, and these columns hold the
  populations cast to 64-bit integers; the untruncated populations are not the
  divisors. Nothing is said about the quotient by the untruncated population: the
  ratio can differ from it and can equal it.
\<close>

theorem ratios_use_truncated_population:
  assumes "df a = Inr t" and "i < length t"
  shows "Vehicles (t ! i) = astype_int (vehicles a ! i) \<and>
     Users (t ! i) = astype_int (users a ! i) \<and>
     Customers (t ! i) = astype_int (customers a ! i) \<and>
     per_Vehicle (t ! i) = np_divide (Grand_Total (t ! i)) (astype_int (vehicles a ! i)) \<and>
     per_User (t ! i) = np_divide (Grand_Total (t ! i)) (astype_int (users a ! i)) \<and>
     per_Customer (t ! i) = np_divide (Grand_Total (t ! i)) (astype_int (customers a ! i)) \<and>
     per_Vehicle (t ! i) = np_divide (Grand_Total (t ! i)) (Vehicles (t ! i)) \<and>
     per_User (t ! i) = np_divide (Grand_Total (t ! i)) (Users (t ! i)) \<and>
     per_Customer (t ! i) = np_divide (Grand_Total (t ! i)) (Customers (t ! i))"
proof -
  from assms have i: "i < n_years a" and r: "t ! i = row_at (projr (data a)) i"
    using df_nth [of a t i] by simp_all
  have pops: "Vehicles (t ! i) = astype_int (vehicles a ! i)"
    "Users (t ! i) = astype_int (users a ! i)"
    "Customers (t ! i) = astype_int (customers a ! i)"
    by (simp_all add: r row_at_data [OF i])
  have ratios: "per_Vehicle (t ! i) = np_divide (Grand_Total (t ! i)) (astype_int (vehicles a ! i))"
    "per_User (t ! i) = np_divide (Grand_Total (t ! i)) (astype_int (users a ! i))"
    "per_Customer (t ! i) = np_divide (Grand_Total (t ! i)) (astype_int (customers a ! i))"
    by (simp_all add: r row_at_ratios row_at_data(2-4) [OF i])
  show ?thesis
    by (simp add: pops ratios)
qed

theorem ratios_use_truncated_population_witness:
  "df (default_inputs\<lparr>vehicles_per_customer := 1, riders_per_vehicle := 1\<rparr>) = Inr (projr (df (default_inputs\<lparr>vehicles_per_customer := 1, riders_per_vehicle := 1\<rparr>))) \<and>
   2 < length (projr (df (default_inputs\<lparr>vehicles_per_customer := 1, riders_per_vehicle := 1\<rparr>))) \<and>
   vehicles (default_inputs\<lparr>vehicles_per_customer := 1, riders_per_vehicle := 1\<rparr>) ! 2 = 45 / 2 \<and>
   users (default_inputs\<lparr>vehicles_per_customer := 1, riders_per_vehicle := 1\<rparr>) ! 2 = 45 / 2 \<and>
   customers (default_inputs\<lparr>vehicles_per_customer := 1, riders_per_vehicle := 1\<rparr>) ! 2 = 45 / 2 \<and>
   Vehicles (projr (df (default_inputs\<lparr>vehicles_per_customer := 1, riders_per_vehicle := 1\<rparr>)) ! 2) = 22 \<and>
   Users (projr (df (default_inputs\<lparr>vehicles_per_customer := 1, riders_per_vehicle := 1\<rparr>)) ! 2) = 22 \<and>
   Customers (projr (df (default_inputs\<lparr>vehicles_per_customer := 1, riders_per_vehicle := 1\<rparr>)) ! 2) = 22 \<and>
   Grand_Total (projr (df (default_inputs\<lparr>vehicles_per_customer := 1, riders_per_vehicle := 1\<rparr>)) ! 2) \<noteq> 0 \<and>
   per_Vehicle (projr (df (default_inputs\<lparr>vehicles_per_customer := 1, riders_per_vehicle := 1\<rparr>)) ! 2) = Finite (Grand_Total (projr (df (default_inputs\<lparr>vehicles_per_customer := 1, riders_per_vehicle := 1\<rparr>)) ! 2) / 22) \<and>
   per_Vehicle (projr (df (default_inputs\<lparr>vehicles_per_customer := 1, riders_per_vehicle := 1\<rparr>)) ! 2) \<noteq> Finite (Grand_Total (projr (df (default_inputs\<lparr>vehicles_per_customer := 1, riders_per_vehicle := 1\<rparr>)) ! 2) / (45 / 2)) \<and>
   per_User (projr (df (default_inputs\<lparr>vehicles_per_customer := 1, riders_per_vehicle := 1\<rparr>)) ! 2) \<noteq> Finite (Grand_Total (projr (df (default_inputs\<lparr>vehicles_per_customer := 1, riders_per_vehicle := 1\<rparr>)) ! 2) / (45 / 2)) \<and>
   per_Customer (projr (df (default_inputs\<lparr>vehicles_per_customer := 1, riders_per_vehicle := 1\<rparr>)) ! 2) \<noteq> Finite (Grand_Total (projr (df (default_inputs\<lparr>vehicles_per_customer := 1, riders_per_vehicle := 1\<rparr>)) ! 2) / (45 / 2))"
proof -
  let ?a = "default_inputs\<lparr>vehicles_per_customer := 1, riders_per_vehicle := 1\<rparr>"
  have le: "start_year ?a \<le> end_year ?a" and n: "n_years ?a = 6"
    by (simp_all add: n_years_eq default_inputs_def)
  have a: "df ?a = Inr (projr (df ?a))"
    by (rule df_projr [OF le])
  have b: "2 < length (projr (df ?a))"
    by (simp add: length_df [OF le] n)
  have c: "customers ?a ! 2 = 45 / 2"
    by (simp add: nth_customers n) (simp add: default_inputs_def power2_eq_square)
  have v: "vehicles ?a ! 2 = 45 / 2"
    by (simp add: nth_vehicles n c)
  have u: "users ?a ! 2 = 45 / 2"
    by (simp add: nth_users n v)
  have t: "astype_int (45 / 2) = 22"
    by (simp add: astype_int_def Let_def)
  have g: "Grand_Total (projr (df ?a) ! 2) \<noteq> 0"
    by (simp add: nth_df [OF le] n row_at_totals row_at_data c v u)
      (simp add: default_inputs_def power2_eq_square)
  have d: "np_divide (Grand_Total (projr (df ?a) ! 2)) 22 \<noteq>
      Finite (Grand_Total (projr (df ?a) ! 2) / (45 / 2))"
    by (rule np_divide_neq [OF g]) simp
  have e: "np_divide (Grand_Total (projr (df ?a) ! 2)) 22 =
      Finite (Grand_Total (projr (df ?a) ! 2) / 22)"
    by (simp add: np_divide_def)
  from ratios_use_truncated_population [OF a b] a b c v u t g d e show ?thesis
    by simp
qed

text \<open>
  Claim C10 as stated lets the ratio differ whenever the population has a fractional
  part. With all nine cost rates 0 and a growth of 5 percent, the second year has 10.5
  customers, shown as 10, and a grand total of 0: the per-customer ratio is 0 either
  way. (10.5 is also what the program computes: the product of 10 and the float 1.05
  rounds to 10.5.)
\<close>

theorem fractional_population_counterexample:
  "customers (default_inputs\<lparr>customers_growth := 5, cost_per_vehicle_compute := 0,
       cost_per_vehicle_db := 0, cost_per_vehicle_bigquery := 0,
       cost_per_vehicle_streaming := 0, cost_per_vehicle_monitoring := 0,
       cost_per_user_auth := 0, cost_per_user_support := 0,
       staff_support_per_customer := 0, staff_devops_per_customer := 0\<rparr>) ! 1 = 21 / 2 \<and>
   Customers (projr (df (default_inputs\<lparr>customers_growth := 5, cost_per_vehicle_compute := 0,
       cost_per_vehicle_db := 0, cost_per_vehicle_bigquery := 0,
       cost_per_vehicle_streaming := 0, cost_per_vehicle_monitoring := 0,
       cost_per_user_auth := 0, cost_per_user_support := 0,
       staff_support_per_customer := 0, staff_devops_per_customer := 0\<rparr>)) ! 1) = 10 \<and>
   Grand_Total (projr (df (default_inputs\<lparr>customers_growth := 5, cost_per_vehicle_compute := 0,
       cost_per_vehicle_db := 0, cost_per_vehicle_bigquery := 0,
       cost_per_vehicle_streaming := 0, cost_per_vehicle_monitoring := 0,
       cost_per_user_auth := 0, cost_per_user_support := 0,
       staff_support_per_customer := 0, staff_devops_per_customer := 0\<rparr>)) ! 1) = 0 \<and>
   per_Customer (projr (df (default_inputs\<lparr>customers_growth := 5, cost_per_vehicle_compute := 0,
       cost_per_vehicle_db := 0, cost_per_vehicle_bigquery := 0,
       cost_per_vehicle_streaming := 0, cost_per_vehicle_monitoring := 0,
       cost_per_user_auth := 0, cost_per_user_support := 0,
       staff_support_per_customer := 0, staff_devops_per_customer := 0\<rparr>)) ! 1) =
     Finite (Grand_Total (projr (df (default_inputs\<lparr>customers_growth := 5, cost_per_vehicle_compute := 0,
       cost_per_vehicle_db := 0, cost_per_vehicle_bigquery := 0,
       cost_per_vehicle_streaming := 0, cost_per_vehicle_monitoring := 0,
       cost_per_user_auth := 0, cost_per_user_support := 0,
       staff_support_per_customer := 0, staff_devops_per_customer := 0\<rparr>)) ! 1) /
       customers (default_inputs\<lparr>customers_growth := 5, cost_per_vehicle_compute := 0,
       cost_per_vehicle_db := 0, cost_per_vehicle_bigquery := 0,
       cost_per_vehicle_streaming := 0, cost_per_vehicle_monitoring := 0,
       cost_per_user_auth := 0, cost_per_user_support := 0,
       staff_support_per_customer := 0, staff_devops_per_customer := 0\<rparr>) ! 1)"
proof -
  let ?a = "default_inputs\<lparr>customers_growth := 5, cost_per_vehicle_compute := 0,
       cost_per_vehicle_db := 0, cost_per_vehicle_bigquery := 0,
       cost_per_vehicle_streaming := 0, cost_per_vehicle_monitoring := 0,
       cost_per_user_auth := 0, cost_per_user_support := 0,
       staff_support_per_customer := 0, staff_devops_per_customer := 0\<rparr>"
  have le: "start_year ?a \<le> end_year ?a" and n: "n_years ?a = 6"
    by (simp_all add: n_years_eq default_inputs_def)
  have c: "customers ?a ! 1 = 21 / 2"
    using nth_customers [of 1 ?a] by (simp add: n) (simp add: default_inputs_def)
  have "Customers (projr (df ?a) ! 1) = astype_int (customers ?a ! 1)"
    by (simp add: nth_df [OF le] n row_at_data)
  also have "\<dots> = astype_int (21 / 2)" by (simp only: c)
  also have "\<dots> = 10" by (simp add: astype_int_def Let_def)
  finally have k: "Customers (projr (df ?a) ! 1) = 10" .
  have g: "Grand_Total (projr (df ?a) ! 1) = 0"
    by (simp add: nth_df [OF le] n row_at_totals row_at_data)
  have p: "per_Customer (projr (df ?a) ! 1) = np_divide (Grand_Total (projr (df ?a) ! 1)) (Customers (projr (df ?a) ! 1))"
    by (simp add: nth_df [OF le] n row_at_ratios)
  show ?thesis
    by (simp only: p g k c) (simp add: np_divide_def)
qed

section \<open>Growth\<close>




section \<open>The exported workbook\<close>

text \<open>
  Claim C9, as the script behaves. The workbook has the two sheets Forecast and
  Assumptions, in this order. Forecast is the table. Assumptions lists eight inputs:
  the two years, the starting customers, the customer growth, the vehicles per
  customer, the riders per vehicle and the two inflation rates. The nine cost rates
  are not part of it.
\<close>

theorem export_sheets:
  "df a = Inr t \<Longrightarrow>
   excel_data a =
     Inr [(''Forecast'', Frame t),
          (''Assumptions'', Items
        [(''Start Year'', start_year a),
         (''End Year'', end_year a),
         (''Starting Customers'', customers_start a),
         (''Annual Customer Growth (%)'', customers_growth a),
         (''Vehicles per Customer'', vehicles_per_customer a),
         (''Riders per Vehicle'', riders_per_vehicle a),
         (''Infrastructure Inflation (%)'', infra_increase a),
         (''Staff Inflation (%)'', staff_increase a)])]"
  by (simp add: excel_data_def assumptions_def)

theorem export_sheets_witness:
  "df default_inputs = Inr (projr (df default_inputs)) \<and>
   excel_data default_inputs =
     Inr [(''Forecast'', Frame (projr (df default_inputs))),
          (''Assumptions'', Items
        [(''Start Year'', 2025), (''End Year'', 2030), (''Starting Customers'', 10),
         (''Annual Customer Growth (%)'', 50), (''Vehicles per Customer'', 50),
         (''Riders per Vehicle'', 10), (''Infrastructure Inflation (%)'', 5),
         (''Staff Inflation (%)'', 5)])]"
proof -
  have a: "df default_inputs = Inr (projr (df default_inputs))"
    by (rule df_projr) (rule default_range)
  from export_sheets [OF a] a show ?thesis
    by (simp add: default_inputs_def)
qed

text \<open>
  Claim C9 as stated has every input, the nine cost rates included, in the Assumptions
  sheet. Changing the compute rate from 50 to 60 leaves the sheet as it is: it holds the
  eight entries below and no cost rate.
\<close>

theorem export_cost_rates_counterexample:
  "cost_per_vehicle_compute (default_inputs\<lparr>cost_per_vehicle_compute := 60\<rparr>) \<noteq>
     cost_per_vehicle_compute default_inputs \<and>
   map_of (projr (excel_data (default_inputs\<lparr>cost_per_vehicle_compute := 60\<rparr>))) ''Assumptions'' =
     map_of (projr (excel_data default_inputs)) ''Assumptions'' \<and>
   map_of (projr (excel_data default_inputs)) ''Assumptions'' =
     Some (Items
        [(''Start Year'', 2025), (''End Year'', 2030), (''Starting Customers'', 10),
         (''Annual Customer Growth (%)'', 50), (''Vehicles per Customer'', 50),
         (''Riders per Vehicle'', 10), (''Infrastructure Inflation (%)'', 5),
         (''Staff Inflation (%)'', 5)])"
proof -
  let ?b = "default_inputs\<lparr>cost_per_vehicle_compute := 60\<rparr>"
  have "start_year default_inputs \<le> end_year default_inputs"
    and "start_year ?b \<le> end_year ?b"
    by (simp_all add: default_inputs_def)
  then have "excel_data default_inputs =
      Inr [(''Forecast'', Frame (projr (df default_inputs))),
           (''Assumptions'', Items (assumptions default_inputs))]"
    and "excel_data ?b =
      Inr [(''Forecast'', Frame (projr (df ?b))), (''Assumptions'', Items (assumptions ?b))]"
    by (simp_all only: excel_data_eq)
  then show ?thesis
    by (simp add: assumptions_def default_inputs_def)
qed

end
